theory Spec2Isabelle
  imports Main "HOL-Library.AList"
begin

section \<open>Text\<close>

text \<open>
  A Python \<^verbatim>\<open>str\<close> is a sequence of Unicode code points. The program's literals
  are Chinese, so a text value is the list of its code points; \<open>len\<close> is the length
  of that list. Text that the program assembles from ASCII pieces only (colours,
  placements, formatted dates) is an ordinary \<^typ>\<open>string\<close>.
\<close>

type_synonym ustring = "nat list"

text \<open>\<^verbatim>\<open>str(n)\<close> for a non-negative integer, as an f-string prints it.\<close>

definition digit :: "nat \<Rightarrow> char" where
  "digit d = char_of (48 + d)"

fun str_nat :: "nat \<Rightarrow> string" where
  "str_nat n = (if n < 10 then [digit n] else str_nat (n div 10) @ [digit (n mod 10)])"

declare str_nat.simps [simp del]

section \<open>Caption animator: \<^verbatim>\<open>update_motivational_text\<close>\<close>

text \<open>
  \<^verbatim>\<open>html.Span(word, className=..., style={'--index': ...})\<close> and
  \<^verbatim>\<open>html.Div(sentence_words, className=..., style={'animationDelay': ...})\<close>.
\<close>

record span =
  span_children :: ustring
  span_className :: string
  span_index :: nat

record line =
  line_children :: "span list"
  line_className :: string
  line_animationDelay :: string

text \<open>The six sentences of the local variable \<^verbatim>\<open>text\<close>, in order.\<close>

definition motivational_sentences :: "ustring list" where
  "motivational_sentences =
   [[50, 48, 50, 52, 24180, 65292, 23681, 26376, 21254, 21254, 65292, 22238, 26395, 36807,
     24448, 65292, 24515, 20013, 28044, 21160, 30528, 24863, 28608, 19982, 24076, 26395, 12290],
    [27599, 19968, 28404, 27735, 27700, 65292, 27599, 19968, 27573, 21162, 21147, 65292, 37117,
     22312, 23681, 26376, 30340, 27827, 27969, 20013, 30041, 19979, 30165, 36857, 12290],
    [26366, 32463, 30340, 22362, 25345, 19982, 25340, 25615, 65292, 21270, 20316, 20102, 20170,
     22825, 30340, 22362, 38887, 19982, 20449, 24515, 12290],
    [24863, 35874, 33258, 24049, 65292, 24863, 35874, 27599, 19968, 20010, 22859, 26007, 30340,
     30636, 38388, 65292, 24863, 35874, 25152, 26377, 25903, 25345, 30340, 20154, 12290],
    [26410, 26469, 30340, 36335, 20805, 28385, 26410, 30693, 65292, 20294, 25105, 24050, 20934,
     22791, 22909, 36814, 25509, 19968, 20999, 25361, 25112, 12290],
    [27599, 19968, 27493, 37117, 22312, 21019, 36896, 26032, 30340, 25925, 20107, 65292, 23646,
     20110, 25105, 65292, 23646, 20110, 25105, 20204, 30340, 31687, 31456, 12290]]"

text \<open>
  The inner comprehension: one span per character \<open>word\<close> of the sentence, at
  position \<open>j\<close>, with \<^verbatim>\<open>--index = i * len(sentence) + j\<close>.
\<close>

definition sentence_words :: "nat \<Rightarrow> ustring \<Rightarrow> span list" where
  "sentence_words i sentence =
     map (\<lambda>(j, word).
            \<lparr>span_children = [word], span_className = ''motivational-word'',
             span_index = i * length sentence + j\<rparr>)
         (enumerate 0 sentence)"

text \<open>
  The outer loop \<^verbatim>\<open>for i, sentence in enumerate(text)\<close>, appending one line
  to \<open>all_words\<close> at each turn.
\<close>

fun all_words_loop :: "(nat \<times> ustring) list \<Rightarrow> line list \<Rightarrow> line list" where
  "all_words_loop [] all_words = all_words"
| "all_words_loop ((i, sentence) # rest) all_words =
     all_words_loop rest
       (all_words @
        [\<lparr>line_children = sentence_words i sentence,
          line_className = ''motivational-line'',
          line_animationDelay = str_nat (i * 2) @ ''s''\<rparr>])"

text \<open>
  The callback. \<open>n_intervals\<close> is the tick counter of the interval component, an
  integer. Both branches of the completion test return \<open>all_words\<close>.
\<close>

definition update_motivational_text :: "int \<Rightarrow> line list" where
  "update_motivational_text n_intervals =
     (let text = motivational_sentences;
          all_words = all_words_loop (enumerate 0 text) []
      in if n_intervals \<ge> int (length text) * 2 then all_words else all_words)"

section \<open>Data frames\<close>

text \<open>
  The tables of the program are pandas data frames. A cell is missing (\<open>NaN\<close>,
  \<open>NaT\<close> or \<open>None\<close>), a text, or a timestamp, of which the program reads the
  calendar date only (year, month, day).
\<close>

datatype cell = NaN | Str ustring | Timestamp nat nat nat

text \<open>
  A column carries its dtype. Only one distinction is visible to the program: the
  \<^verbatim>\<open>.dt\<close> accessor exists on a \<open>datetime64\<close> column and on no other, so every
  other dtype is \<open>Object\<close> here.
\<close>

datatype dtype = Datetime64 | Object

type_synonym column = "dtype \<times> cell list"

text \<open>
  A frame is its row count (the length of its index) and its columns in order, by
  label. In a frame that pandas can build, every column has \<open>index_len\<close> cells.
\<close>

record frame =
  index_len :: nat
  columns :: "(ustring \<times> column) list"

datatype exn =
    KeyError cell
  | AttributeError
  | ValueError
  | Base64Error
  | ExcelReadError

text \<open>The three column labels: \<open>date\<close>, \<open>event type\<close>, \<open>event description\<close>.\<close>

definition col_date :: ustring where
  "col_date = [26085, 26399]"

definition col_type :: ustring where
  "col_type = [20107, 20214, 31867, 22411]"

definition col_desc :: ustring where
  "col_desc = [20107, 20214, 25551, 36848]"

text \<open>\<^verbatim>\<open>df[label]\<close>: the column, or \<open>KeyError\<close> when the frame has no such label.\<close>

definition getitem :: "frame \<Rightarrow> ustring \<Rightarrow> exn + column" where
  "getitem df label =
     (case map_of (columns df) label of
        None \<Rightarrow> Inl (KeyError (Str label))
      | Some c \<Rightarrow> Inr c)"

text \<open>
  \<^verbatim>\<open>Series.unique()\<close>: the distinct values in order of appearance. pandas walks
  the values with a hash table of those already seen; a missing value is kept once.
\<close>

fun unique_loop :: "'a list \<Rightarrow> 'a list \<Rightarrow> 'a list" where
  "unique_loop [] seen = seen"
| "unique_loop (v # vs) seen = unique_loop vs (if v \<in> set seen then seen else seen @ [v])"

definition unique :: "'a list \<Rightarrow> 'a list" where
  "unique vs = unique_loop vs []"

text \<open>
  \<^verbatim>\<open>series == value\<close>, elementwise: a missing cell compares unequal to
  everything, itself included.
\<close>

definition cell_eq :: "cell \<Rightarrow> cell \<Rightarrow> bool" where
  "cell_eq a b = (a \<noteq> NaN \<and> b \<noteq> NaN \<and> a = b)"

text \<open>\<^verbatim>\<open>df[mask]\<close>: the rows at which the boolean mask holds, every column keeping its dtype.\<close>

definition select :: "bool list \<Rightarrow> 'a list \<Rightarrow> 'a list" where
  "select keep vs = map snd (filter fst (zip keep vs))"

definition take_rows :: "bool list \<Rightarrow> frame \<Rightarrow> frame" where
  "take_rows keep df =
     \<lparr>index_len = length (filter id keep),
      columns = map (\<lambda>(label, (t, vs)). (label, (t, select keep vs))) (columns df)\<rparr>"

text \<open>
  \<^verbatim>\<open>series.dt.strftime('%m-%d')\<close>: \<open>AttributeError\<close> unless the column is
  \<open>datetime64\<close>; month and day zero-padded to two digits; \<open>NaT\<close> gives a missing label.
\<close>

definition pad2 :: "nat \<Rightarrow> string" where
  "pad2 n = (if n < 10 then ''0'' @ str_nat n else str_nat n)"

fun strftime_md :: "cell \<Rightarrow> string option" where
  "strftime_md (Timestamp y m d) = Some (pad2 m @ ''-'' @ pad2 d)"
| "strftime_md _ = None"

definition dt_strftime_md :: "column \<Rightarrow> exn + string option list" where
  "dt_strftime_md c =
     (case c of
        (Datetime64, vs) \<Rightarrow> Inr (map strftime_md vs)
      | (Object, vs) \<Rightarrow> Inl AttributeError)"

section \<open>Dictionaries\<close>

text \<open>
  A Python \<open>dict\<close> keeps its keys in insertion order, and storing under a key that
  is already there replaces the value in place: an association list under
  \<^const>\<open>AList.update\<close>. A comprehension stores its pairs from left to right.
\<close>

type_synonym ('k, 'v) dict = "('k \<times> 'v) list"

definition dict_comprehension :: "('k \<times> 'v) list \<Rightarrow> ('k, 'v) dict" where
  "dict_comprehension kvs = fold (\<lambda>(k, v) d. AList.update k v d) kvs []"

definition dict_getitem :: "(cell, 'v) dict \<Rightarrow> cell \<Rightarrow> exn + 'v" where
  "dict_getitem d k = (case map_of d k of None \<Rightarrow> Inl (KeyError k) | Some v \<Rightarrow> Inr v)"

section \<open>Timeline renderer: \<^verbatim>\<open>generate_event_types\<close> and \<^verbatim>\<open>create_timeline\<close>\<close>

text \<open>The colour of the category at ordinal \<open>i\<close>, as the f-string prints it.\<close>

definition rgba :: "nat \<Rightarrow> string" where
  "rgba i = ''rgba('' @ str_nat ((i * 70) mod 255) @ '', '' @ str_nat ((i * 120) mod 255)
            @ '', '' @ str_nat ((i * 180) mod 255) @ '', 0.7)''"

definition generate_event_types ::
  "frame \<Rightarrow> exn + (cell list \<times> (cell, string) dict \<times> (cell, nat) dict)" where
  "generate_event_types events_df =
     (case getitem events_df col_type of
        Inl e \<Rightarrow> Inl e
      | Inr (t, vs) \<Rightarrow>
          let event_types = unique vs;
              color_map = dict_comprehension
                            (map (\<lambda>(i, event_type). (event_type, rgba i)) (enumerate 0 event_types));
              y_position_map = dict_comprehension
                            (map (\<lambda>(i, event_type). (event_type, i)) (enumerate 0 event_types))
          in Inr (event_types, color_map, y_position_map))"

text \<open>The arguments of \<^verbatim>\<open>go.Scatter\<close> that the program sets.\<close>

record scatter =
  trace_x :: "cell list"
  trace_y :: "nat list"
  trace_mode :: string
  trace_text :: "string option list"
  trace_textposition :: "string list"
  trace_hovertext :: "cell list"
  trace_hoverinfo :: string
  trace_marker_size :: nat
  trace_marker_color :: string
  trace_marker_line_width :: nat
  trace_marker_line_color :: string
  trace_name :: cell

text \<open>The inner loop \<^verbatim>\<open>for i in range(len(event_data))\<close> that fills \<open>text_position\<close>.\<close>

fun text_position_loop :: "nat list \<Rightarrow> string list \<Rightarrow> string list" where
  "text_position_loop [] text_position = text_position"
| "text_position_loop (i # is) text_position =
     text_position_loop is
       (text_position @ [if i mod 2 = 0 then ''bottom center'' else ''top center''])"

text \<open>
  The body of the loop over \<open>event_types\<close>: the rows of one category and their
  trace. The keyword arguments are evaluated in the order written, so a frame without
  a date column fails first, then a date column that is not \<open>datetime64\<close>, then a
  missing description column.
\<close>

definition make_trace ::
  "frame \<Rightarrow> (cell, string) dict \<Rightarrow> (cell, nat) dict \<Rightarrow> cell \<Rightarrow> exn + scatter" where
  "make_trace events_df color_map y_position_map event_type =
     (case getitem events_df col_type of Inl e \<Rightarrow> Inl e | Inr (t, types) \<Rightarrow>
      let event_data = take_rows (map (\<lambda>v. cell_eq v event_type) types) events_df;
          text_position = text_position_loop [0..<index_len event_data] []
      in
      case getitem event_data col_date of Inl e \<Rightarrow> Inl e | Inr (dt, dates) \<Rightarrow>
      case dict_getitem y_position_map event_type of Inl e \<Rightarrow> Inl e | Inr lane \<Rightarrow>
      case dt_strftime_md (dt, dates) of Inl e \<Rightarrow> Inl e | Inr labels \<Rightarrow>
      case getitem event_data col_desc of Inl e \<Rightarrow> Inl e | Inr (dd, descs) \<Rightarrow>
      case dict_getitem color_map event_type of Inl e \<Rightarrow> Inl e | Inr colour \<Rightarrow>
      Inr \<lparr>trace_x = dates,
           trace_y = replicate (index_len event_data) lane,
           trace_mode = ''markers+text'',
           trace_text = labels,
           trace_textposition = text_position,
           trace_hovertext = descs,
           trace_hoverinfo = ''text+x'',
           trace_marker_size = 12,
           trace_marker_color = colour,
           trace_marker_line_width = 2,
           trace_marker_line_color = ''black'',
           trace_name = event_type\<rparr>)"

text \<open>The loop \<^verbatim>\<open>for event_type in event_types: fig.add_trace(...)\<close>; it stops at the first exception.\<close>

fun add_traces ::
  "frame \<Rightarrow> (cell, string) dict \<Rightarrow> (cell, nat) dict \<Rightarrow> cell list \<Rightarrow> scatter list
   \<Rightarrow> exn + scatter list" where
  "add_traces events_df color_map y_position_map [] traces = Inr traces"
| "add_traces events_df color_map y_position_map (event_type # rest) traces =
     (case make_trace events_df color_map y_position_map event_type of
        Inl e \<Rightarrow> Inl e
      | Inr t \<Rightarrow> add_traces events_df color_map y_position_map rest (traces @ [t]))"

text \<open>The figure: its traces and the layout that \<^verbatim>\<open>update_layout\<close> and \<^verbatim>\<open>update_xaxes\<close> set.\<close>

record figure =
  fig_data :: "scatter list"
  fig_title :: ustring
  fig_title_x :: string
  fig_xaxis_title :: ustring
  fig_yaxis_tickvals :: "nat list"
  fig_yaxis_ticktext :: "cell list"
  fig_yaxis_title :: ustring
  fig_plot_bgcolor :: string
  fig_hovermode :: string
  fig_showlegend :: bool
  fig_template :: string
  fig_height :: nat
  fig_autosize :: bool
  fig_xaxis_range :: "string \<times> string"

definition create_timeline :: "frame \<Rightarrow> exn + figure" where
  "create_timeline events_df =
     (case generate_event_types events_df of
        Inl e \<Rightarrow> Inl e
      | Inr (event_types, color_map, y_position_map) \<Rightarrow>
          (case add_traces events_df color_map y_position_map event_types [] of
             Inl e \<Rightarrow> Inl e
           | Inr traces \<Rightarrow>
               Inr \<lparr>fig_data = traces,
                    fig_title = [25105, 30340, 22823, 20107, 20214, 32447, 32, 40, 50, 48, 50, 51,
                                 45, 50, 48, 50, 52, 41],
                    fig_title_x = ''0.5'',
                    fig_xaxis_title = col_date,
                    fig_yaxis_tickvals = map snd y_position_map,
                    fig_yaxis_ticktext = map fst y_position_map,
                    fig_yaxis_title = col_type,
                    fig_plot_bgcolor = ''white'',
                    fig_hovermode = ''closest'',
                    fig_showlegend = True,
                    fig_template = ''plotly_white'',
                    fig_height = 500,
                    fig_autosize = True,
                    fig_xaxis_range = (''2023-01-01'', ''2024-12-31'')\<rparr>))"

section \<open>Reading spreadsheets, and the default table: \<^verbatim>\<open>load_default_events\<close>\<close>

text \<open>
  \<^verbatim>\<open>pd.read_excel\<close> and the writer behind \<^verbatim>\<open>to_excel\<close> belong to pandas and
  openpyxl, not to this program, and the bytes of a workbook are not parsed here. A
  byte string (a file on disk or an upload) is represented by what
  \<^verbatim>\<open>pd.read_excel\<close> makes of it: it raises, or it returns a frame. It returns
  whatever columns the first sheet has; it knows nothing of the three labels.
\<close>

datatype excel_bytes = Unreadable | Workbook frame

fun read_excel :: "excel_bytes \<Rightarrow> exn + frame" where
  "read_excel Unreadable = Inl ExcelReadError"
| "read_excel (Workbook df) = Inr df"

text \<open>
  The frame built in the \<open>else\<close> branch of \<^verbatim>\<open>load_default_events\<close>;
  \<^verbatim>\<open>create_excel_template\<close> builds the same frame for the template file.
\<close>

definition builtin_sample :: frame where
  "builtin_sample =
     \<lparr>index_len = 3,
      columns =
        [(col_date, (Datetime64, [Timestamp 2023 1 1, Timestamp 2023 5 1, Timestamp 2023 12 25])),
         (col_type, (Object, [Str [37325, 35201, 20107, 20214], Str [26085, 24120, 20219, 21153],
                              Str [33410, 20551, 26085]])),
         (col_desc, (Object, [Str [25551, 36848, 49], Str [25551, 36848, 50],
                              Str [25551, 36848, 51]]))]\<rparr>"

text \<open>
  The argument is the file \<^verbatim>\<open>events.xlsx\<close>: \<open>None\<close> when
  \<^verbatim>\<open>os.path.exists\<close> is false. The read is not inside a \<open>try\<close>.
\<close>

fun load_default_events :: "excel_bytes option \<Rightarrow> exn + frame" where
  "load_default_events None = Inr builtin_sample"
| "load_default_events (Some file) = read_excel file"

section \<open>The upload callbacks: \<^verbatim>\<open>store_file\<close> and \<^verbatim>\<open>update_graph\<close>\<close>

text \<open>
  \<^verbatim>\<open>df.to_dict('records')\<close>: one dict per row, from column label to the cell of
  that row.
\<close>

type_synonym record_row = "(ustring, cell) dict"

definition to_dict_records :: "frame \<Rightarrow> record_row list" where
  "to_dict_records df =
     map (\<lambda>i. dict_comprehension (map (\<lambda>(label, (t, vs)). (label, vs ! i)) (columns df)))
         [0..<index_len df]"

text \<open>
  \<^verbatim>\<open>pd.DataFrame(data)\<close> for a list of dicts: one row per dict; the columns are
  the keys in the order in which they first appear; a row without a key has a missing
  cell there. A column of timestamps (and missing cells) comes out as \<open>datetime64\<close>.
\<close>

fun is_timestamp :: "cell \<Rightarrow> bool" where
  "is_timestamp (Timestamp y m d) = True"
| "is_timestamp _ = False"

definition infer_dtype :: "cell list \<Rightarrow> dtype" where
  "infer_dtype vs =
     (if (\<exists>v \<in> set vs. is_timestamp v) \<and> (\<forall>v \<in> set vs. is_timestamp v \<or> v = NaN)
      then Datetime64 else Object)"

definition DataFrame :: "record_row list \<Rightarrow> frame" where
  "DataFrame data =
     \<lparr>index_len = length data,
      columns =
        map (\<lambda>label.
               let vs = map (\<lambda>row. case map_of row label of None \<Rightarrow> NaN | Some v \<Rightarrow> v) data
               in (label, (infer_dtype vs, vs)))
            (unique (concat (map (map fst) data)))\<rparr>"

text \<open>
  The \<open>contents\<close> of an upload is a string. It is represented by what the first two
  statements of \<^verbatim>\<open>store_file\<close> make of it: \<^verbatim>\<open>split(',')\<close> gives other than two
  parts, and the unpacking raises; or the second part is not base64, and
  \<^verbatim>\<open>b64decode\<close> raises; or there are a content type and the decoded bytes. Both
  statements stand before the \<open>try\<close>.
\<close>

datatype contents =
    NotTwoParts
  | BadBase64 string
  | Payload string excel_bytes

text \<open>
  \<^verbatim>\<open>store_file\<close>, with the global \<open>default_events_df\<close> as its first argument.
  The value returned is the new data of the \<open>file-store\<close> component; \<open>None\<close> is
  Python's \<open>None\<close>.
\<close>

fun store_file :: "frame \<Rightarrow> contents option \<Rightarrow> exn + record_row list option" where
  "store_file default_events_df None = Inr None"
| "store_file default_events_df (Some NotTwoParts) = Inl ValueError"
| "store_file default_events_df (Some (BadBase64 content_type)) = Inl Base64Error"
| "store_file default_events_df (Some (Payload content_type decoded)) =
     (case read_excel decoded of
        Inr events_df \<Rightarrow> Inr (Some (to_dict_records events_df))
      | Inl e \<Rightarrow> Inr (Some (to_dict_records default_events_df)))"

text \<open>
  The table that \<^verbatim>\<open>update_graph\<close> renders, its local \<open>events_df\<close>: the default
  table while the store is empty, else the frame of the stored records. The store is
  read back as it was written.
\<close>

definition active_table :: "frame \<Rightarrow> record_row list option \<Rightarrow> frame" where
  "active_table default_events_df data =
     (case data of None \<Rightarrow> default_events_df | Some rows \<Rightarrow> DataFrame rows)"

definition update_graph :: "frame \<Rightarrow> record_row list option \<Rightarrow> exn + figure" where
  "update_graph default_events_df data = create_timeline (active_table default_events_df data)"

section \<open>Vocabulary of the properties\<close>

text \<open>The cells of a column, by label (none when the frame lacks the column).\<close>

definition cells :: "frame \<Rightarrow> ustring \<Rightarrow> cell list" where
  "cells df label = (case getitem df label of Inl e \<Rightarrow> [] | Inr (t, vs) \<Rightarrow> vs)"

text \<open>
  An event table: a frame with the three columns, each with one cell per row, in
  which every row has a category, and whose date column is \<open>datetime64\<close> (a table
  without rows may have any dtype there).
\<close>

definition event_table :: "frame \<Rightarrow> bool" where
  "event_table df =
     (case (getitem df col_date, getitem df col_type, getitem df col_desc) of
        (Inr (dt, dates), Inr (tt, cats), Inr (dd, descs)) \<Rightarrow>
          (dt = Datetime64 \<or> cats = [])
          \<and> length dates = index_len df \<and> length cats = index_len df
          \<and> length descs = index_len df \<and> NaN \<notin> set cats
      | _ \<Rightarrow> False)"

text \<open>
  The partition of a category: the cells of one column in the rows whose category is
  \<open>e\<close>, in the order of the table.
\<close>

definition rows_of :: "frame \<Rightarrow> cell \<Rightarrow> ustring \<Rightarrow> cell list" where
  "rows_of df e label =
     map snd (filter (\<lambda>(c, v). c = e) (zip (cells df col_type) (cells df label)))"

text \<open>The position at which a value first occurs in a list.\<close>

definition first_pos :: "'a list \<Rightarrow> 'a \<Rightarrow> nat" where
  "first_pos vs v = length (takeWhile (\<lambda>w. w \<noteq> v) vs)"

text \<open>
  A frame as pandas builds it: distinct labels, every column as long as the index, and
  the dtype that the cells call for.
\<close>

definition pandas_frame :: "frame \<Rightarrow> bool" where
  "pandas_frame df =
     (distinct (map fst (columns df))
      \<and> (\<forall>(label, (t, vs)) \<in> set (columns df). length vs = index_len df \<and> t = infer_dtype vs))"

text \<open>
  The table of the specification's example, with categories \<open>A\<close>, \<open>B\<close>, \<open>A\<close> and
  descriptions \<open>d1\<close>, \<open>d2\<close>, \<open>d3\<close>.
\<close>

definition example_table :: frame where
  "example_table =
     \<lparr>index_len = 3,
      columns =
        [(col_date, (Datetime64, [Timestamp 2023 1 1, Timestamp 2023 5 1, Timestamp 2023 12 25])),
         (col_type, (Object, [Str [65], Str [66], Str [65]])),
         (col_desc, (Object, [Str [100, 49], Str [100, 50], Str [100, 51]]))]\<rparr>"

text \<open>The table with the three columns and no row.\<close>

definition empty_table :: frame where
  "empty_table =
     \<lparr>index_len = 0,
      columns = [(col_date, (Object, [])), (col_type, (Object, [])), (col_desc, (Object, []))]\<rparr>"

text \<open>A sheet of one row that has a date and a description column and no category column.\<close>

definition sheet_without_category :: frame where
  "sheet_without_category =
     \<lparr>index_len = 1,
      columns = [(col_date, (Datetime64, [Timestamp 2023 1 1])),
                 (col_desc, (Object, [Str [100, 49]]))]\<rparr>"

section \<open>The caption does not depend on the tick\<close>

lemma all_words_loop_length:
  "length (all_words_loop es acc) = length acc + length es"
  by (induction es acc rule: all_words_loop.induct) simp_all

lemma update_motivational_text_length:
  "length (update_motivational_text n) = 6"
  by (simp add: update_motivational_text_def Let_def all_words_loop_length
      motivational_sentences_def)

text \<open>
  Claim C6. The caption animator returns the same list of styled lines for every
  tick: a tick at or above the completion threshold \<open>6 * 2 = 12\<close> gives the output
  of a tick below it, and (taking \<open>t1 = t2\<close>) two calls with one tick agree. The
  output is the six lines of the script, never the empty list.
\<close>

theorem update_motivational_text_tick_independent:
  "update_motivational_text t1 = update_motivational_text t2
   \<and> length (update_motivational_text t1) = length motivational_sentences"
  by (simp add: update_motivational_text_def Let_def all_words_loop_length
      motivational_sentences_def)

section \<open>First-seen order of \<open>unique\<close>\<close>

lemma unique_loop_set: "set (unique_loop vs seen) = set seen \<union> set vs"
  by (induction vs arbitrary: seen) auto

lemma unique_loop_distinct: "distinct seen \<Longrightarrow> distinct (unique_loop vs seen)"
  by (induction vs arbitrary: seen) auto

lemma unique_set: "set (unique vs) = set vs"
  by (simp add: unique_def unique_loop_set)

lemma unique_distinct: "distinct (unique vs)"
  by (simp add: unique_def unique_loop_distinct)

lemma unique_length: "length (unique vs) = card (set vs)"
  using distinct_card [OF unique_distinct, of vs] by (simp add: unique_set)

lemma first_pos_less: "v \<in> set vs \<Longrightarrow> first_pos vs v < length vs"
  unfolding first_pos_def by (induction vs) auto

lemma first_pos_append_in: "v \<in> set pre \<Longrightarrow> first_pos (pre @ vs) v = first_pos pre v"
  unfolding first_pos_def by (induction pre) auto

lemma first_pos_append_new: "v \<notin> set pre \<Longrightarrow> first_pos (pre @ v # vs) v = length pre"
  unfolding first_pos_def by (induction pre) auto

lemma unique_loop_order:
  "set seen = set pre \<Longrightarrow> sorted_wrt (<) (map (first_pos (pre @ vs)) seen)
   \<Longrightarrow> sorted_wrt (<) (map (first_pos (pre @ vs)) (unique_loop vs seen))"
proof (induction vs arbitrary: seen pre)
  case Nil
  then show ?case by simp
next
  case (Cons v vs)
  show ?case
  proof (cases "v \<in> set seen")
    case True
    have "sorted_wrt (<) (map (first_pos ((pre @ [v]) @ vs)) (unique_loop vs seen))"
      using Cons.prems True by (intro Cons.IH) auto
    then show ?thesis using True by simp
  next
    case False
    have new: "first_pos (pre @ v # vs) v = length pre"
      using False Cons.prems(1) by (simp add: first_pos_append_new)
    have old: "\<forall>w \<in> set seen. first_pos (pre @ v # vs) w < length pre"
      using Cons.prems(1) by (simp add: first_pos_append_in first_pos_less)
    have "sorted_wrt (<) (map (first_pos ((pre @ [v]) @ vs)) (unique_loop vs (seen @ [v])))"
      using Cons.prems new old by (intro Cons.IH) (auto simp: sorted_wrt_append)
    then show ?thesis using False by simp
  qed
qed

lemma unique_first_seen: "sorted_wrt (<) (map (first_pos vs) (unique vs))"
  using unique_loop_order [of "[]" "[]" vs] by (simp add: unique_def)

section \<open>Dictionaries built from distinct keys\<close>

lemma update_fresh: "k \<notin> fst ` set d \<Longrightarrow> AList.update k v d = d @ [(k, v)]"
  by (induction d) auto

lemma fold_update_distinct:
  "distinct (map fst (d @ kvs)) \<Longrightarrow> fold (\<lambda>(k, v) d. AList.update k v d) kvs d = d @ kvs"
proof (induction kvs arbitrary: d)
  case Nil
  then show ?case by simp
next
  case (Cons kv kvs)
  obtain k v where kv: "kv = (k, v)" by (cases kv)
  have fresh: "k \<notin> fst ` set d" using Cons.prems kv by auto
  have "distinct (map fst ((d @ [(k, v)]) @ kvs))" using Cons.prems kv by simp
  from Cons.IH [OF this] show ?case using fresh kv by (simp add: update_fresh)
qed

lemma dict_comprehension_distinct:
  "distinct (map fst kvs) \<Longrightarrow> dict_comprehension kvs = kvs"
  using fold_update_distinct [of "[]" kvs] by (simp add: dict_comprehension_def)

lemma enumerate_pairs_from:
  "map (\<lambda>(i, e). (e, f i)) (enumerate n es) = zip es (map f [n..<n + length es])"
proof (induction es arbitrary: n)
  case Nil
  then show ?case by simp
next
  case (Cons e es)
  have "[n..<Suc (n + length es)] = n # [Suc n..<Suc (n + length es)]"
    by (rule upt_conv_Cons) simp
  then show ?case using Cons.IH [of "Suc n"] by simp
qed

lemma enumerate_pairs:
  "map (\<lambda>(i, e). (e, f i)) (enumerate 0 es) = zip es (map f [0..<length es])"
  using enumerate_pairs_from [of f 0 es] by simp

lemma dict_of_unique:
  "dict_comprehension (map (\<lambda>(i, e). (e, f i)) (enumerate 0 (unique vs)))
   = zip (unique vs) (map f [0..<length (unique vs)])"
  by (simp add: enumerate_pairs dict_comprehension_distinct unique_distinct)

section \<open>The renderer on an event table\<close>

lemma text_position_loop_eq:
  "text_position_loop is tp
   = tp @ map (\<lambda>i. if even i then ''bottom center'' else ''top center'') is"
  by (induction "is" arbitrary: tp) (simp_all add: even_iff_mod_2_eq_zero)

lemma map_of_map_column:
  "map_of (map (\<lambda>(label, (t, vs)). (label, (t, g vs))) cols) label
   = map_option (\<lambda>(t, vs). (t, g vs)) (map_of cols label)"
  by (induction cols) auto

lemma getitem_take_rows:
  "getitem df label = Inr (t, vs) \<Longrightarrow> getitem (take_rows keep df) label = Inr (t, select keep vs)"
  by (auto simp: getitem_def take_rows_def map_of_map_column split: option.splits)


lemma select_length:
  "length keep = length vs \<Longrightarrow> length (select keep vs) = length (filter id keep)"
proof (induction keep arbitrary: vs)
  case Nil
  then show ?case by (simp add: select_def)
next
  case (Cons k keep)
  then obtain v vs' where "vs = v # vs'" by (cases vs) auto
  with Cons show ?case by (simp add: select_def)
qed

lemma select_map:
  "select (map P cs) vs = map snd (filter (\<lambda>(c, v). P c) (zip cs vs))"
proof (induction cs arbitrary: vs)
  case Nil
  then show ?case by (simp add: select_def)
next
  case (Cons c cs)
  show ?case
  proof (cases vs)
    case Nil
    then show ?thesis by (simp add: select_def)
  next
    case (Cons v vs')
    with Cons.IH [of vs'] show ?thesis by (simp add: select_def)
  qed
qed

lemma select_rows_of:
  assumes "NaN \<notin> set (cells df col_type)" "e \<noteq> NaN"
  shows "select (map (\<lambda>v. cell_eq v e) (cells df col_type)) (cells df label) = rows_of df e label"
proof -
  have "filter (\<lambda>(c, v). cell_eq c e) (zip (cells df col_type) (cells df label))
        = filter (\<lambda>(c, v). c = e) (zip (cells df col_type) (cells df label))"
    using assms by (intro filter_cong) (auto simp: cell_eq_def dest: set_zip_leftD)
  then show ?thesis by (simp add: select_map rows_of_def)
qed

lemma event_tableD:
  assumes "event_table df"
  shows "\<exists>dt tt dd.
    getitem df col_date = Inr (dt, cells df col_date)
    \<and> getitem df col_type = Inr (tt, cells df col_type)
    \<and> getitem df col_desc = Inr (dd, cells df col_desc)
    \<and> (dt = Datetime64 \<or> cells df col_type = [])
    \<and> length (cells df col_date) = index_len df
    \<and> length (cells df col_type) = index_len df
    \<and> length (cells df col_desc) = index_len df
    \<and> NaN \<notin> set (cells df col_type)"
proof -
  obtain dt dates where d: "getitem df col_date = Inr (dt, dates)"
    using assms unfolding event_table_def by (cases "getitem df col_date") auto
  obtain tt cats where t: "getitem df col_type = Inr (tt, cats)"
    using assms d unfolding event_table_def by (cases "getitem df col_type") auto
  obtain dd descs where e: "getitem df col_desc = Inr (dd, descs)"
    using assms d t unfolding event_table_def by (cases "getitem df col_desc") auto
  show ?thesis using assms d t e unfolding event_table_def cells_def by simp
qed

lemma index_len_take_rows: "index_len (take_rows keep df) = length (filter id keep)"
  by (simp add: take_rows_def)

lemma make_trace_ok:
  assumes "getitem df col_date = Inr (Datetime64, dates)"
    and "getitem df col_type = Inr (tt, cats)"
    and "getitem df col_desc = Inr (dd, descs)"
    and "map_of ym e = Some lane"
    and "map_of cm e = Some colour"
  shows "make_trace df cm ym e =
     Inr \<lparr>trace_x = select (map (\<lambda>v. cell_eq v e) cats) dates,
          trace_y = replicate (length (filter id (map (\<lambda>v. cell_eq v e) cats))) lane,
          trace_mode = ''markers+text'',
          trace_text = map strftime_md (select (map (\<lambda>v. cell_eq v e) cats) dates),
          trace_textposition =
            map (\<lambda>i. if even i then ''bottom center'' else ''top center'')
                [0..<length (filter id (map (\<lambda>v. cell_eq v e) cats))],
          trace_hovertext = select (map (\<lambda>v. cell_eq v e) cats) descs,
          trace_hoverinfo = ''text+x'',
          trace_marker_size = 12,
          trace_marker_color = colour,
          trace_marker_line_width = 2,
          trace_marker_line_color = ''black'',
          trace_name = e\<rparr>"
  using assms
  by (simp add: make_trace_def Let_def getitem_take_rows dict_getitem_def dt_strftime_md_def
      text_position_loop_eq index_len_take_rows)

lemma add_traces_ok:
  "(\<And>e. e \<in> set es \<Longrightarrow> make_trace df cm ym e = Inr (g e))
   \<Longrightarrow> add_traces df cm ym es acc = Inr (acc @ map g es)"
  by (induction es arbitrary: acc) simp_all


lemma create_timeline_event_table:
  assumes "event_table df"
  shows "\<exists>fig. create_timeline df = Inr fig
    \<and> length (fig_data fig) = length (unique (cells df col_type))
    \<and> fig_yaxis_tickvals fig = [0..<length (unique (cells df col_type))]
    \<and> fig_yaxis_ticktext fig = unique (cells df col_type)
    \<and> (\<forall>i < length (unique (cells df col_type)).
          fig_data fig ! i =
            \<lparr>trace_x = rows_of df (unique (cells df col_type) ! i) col_date,
             trace_y = replicate (length (rows_of df (unique (cells df col_type) ! i) col_date)) i,
             trace_mode = ''markers+text'',
             trace_text = map strftime_md (rows_of df (unique (cells df col_type) ! i) col_date),
             trace_textposition =
               map (\<lambda>j. if even j then ''bottom center'' else ''top center'')
                   [0..<length (rows_of df (unique (cells df col_type) ! i) col_date)],
             trace_hovertext = rows_of df (unique (cells df col_type) ! i) col_desc,
             trace_hoverinfo = ''text+x'',
             trace_marker_size = 12,
             trace_marker_color = rgba i,
             trace_marker_line_width = 2,
             trace_marker_line_color = ''black'',
             trace_name = unique (cells df col_type) ! i\<rparr>)"
proof -
  define cats where "cats = cells df col_type"
  define us where "us = unique cats"
  define cm where "cm = zip us (map rgba [0..<length us])"
  define ym where "ym = zip us [0..<length us]"
  from event_tableD [OF assms] obtain dt tt dd where
    gd: "getitem df col_date = Inr (dt, cells df col_date)" and
    gt: "getitem df col_type = Inr (tt, cats)" and
    ge: "getitem df col_desc = Inr (dd, cells df col_desc)" and
    dt: "dt = Datetime64 \<or> cats = []" and
    ld: "length (cells df col_date) = length cats" and
    nn: "NaN \<notin> set cats"
    unfolding cats_def by auto
  have dist: "distinct us" by (simp add: us_def unique_distinct)
  have gen: "generate_event_types df = Inr (us, cm, ym)"
    using dict_of_unique [of rgba cats] dict_of_unique [of "\<lambda>i. i" cats]
    by (simp add: generate_event_types_def gt Let_def us_def cm_def ym_def)
  define g where "g e =
     \<lparr>trace_x = select (map (\<lambda>v. cell_eq v e) cats) (cells df col_date),
      trace_y = replicate (length (filter id (map (\<lambda>v. cell_eq v e) cats))) (the (map_of ym e)),
      trace_mode = ''markers+text'',
      trace_text = map strftime_md (select (map (\<lambda>v. cell_eq v e) cats) (cells df col_date)),
      trace_textposition =
        map (\<lambda>i. if even i then ''bottom center'' else ''top center'')
            [0..<length (filter id (map (\<lambda>v. cell_eq v e) cats))],
      trace_hovertext = select (map (\<lambda>v. cell_eq v e) cats) (cells df col_desc),
      trace_hoverinfo = ''text+x'',
      trace_marker_size = 12,
      trace_marker_color = the (map_of cm e),
      trace_marker_line_width = 2,
      trace_marker_line_color = ''black'',
      trace_name = e\<rparr>" for e
  have tr: "add_traces df cm ym us [] = Inr (map g us)"
  proof (cases "cats = []")
    case True
    then show ?thesis by (simp add: us_def unique_def)
  next
    case False
    with dt have dt64: "getitem df col_date = Inr (Datetime64, cells df col_date)"
      using gd by simp
    have "make_trace df cm ym e = Inr (g e)" if mem: "e \<in> set us" for e
    proof -
      obtain lane where l: "map_of ym e = Some lane"
        using mem map_of_zip_is_Some [of us "[0..<length us]" e] by (auto simp: ym_def)
      obtain colour where c: "map_of cm e = Some colour"
        using mem map_of_zip_is_Some [of us "map rgba [0..<length us]" e]
        by (auto simp: cm_def)
      show ?thesis using make_trace_ok [OF dt64 gt ge l c] l c by (simp add: g_def)
    qed
    from add_traces_ok [of us df cm ym g "[]", OF this] show ?thesis by simp
  qed
  have ct: "create_timeline df =
     Inr \<lparr>fig_data = map g us,
          fig_title = [25105, 30340, 22823, 20107, 20214, 32447, 32, 40, 50, 48, 50, 51,
                       45, 50, 48, 50, 52, 41],
          fig_title_x = ''0.5'',
          fig_xaxis_title = col_date,
          fig_yaxis_tickvals = [0..<length us],
          fig_yaxis_ticktext = us,
          fig_yaxis_title = col_type,
          fig_plot_bgcolor = ''white'',
          fig_hovermode = ''closest'',
          fig_showlegend = True,
          fig_template = ''plotly_white'',
          fig_height = 500,
          fig_autosize = True,
          fig_xaxis_range = (''2023-01-01'', ''2024-12-31'')\<rparr>"
    by (simp add: create_timeline_def gen tr) (simp add: ym_def)
  have each: "g (us ! i) =
            \<lparr>trace_x = rows_of df (us ! i) col_date,
             trace_y = replicate (length (rows_of df (us ! i) col_date)) i,
             trace_mode = ''markers+text'',
             trace_text = map strftime_md (rows_of df (us ! i) col_date),
             trace_textposition =
               map (\<lambda>j. if even j then ''bottom center'' else ''top center'')
                   [0..<length (rows_of df (us ! i) col_date)],
             trace_hovertext = rows_of df (us ! i) col_desc,
             trace_hoverinfo = ''text+x'',
             trace_marker_size = 12,
             trace_marker_color = rgba i,
             trace_marker_line_width = 2,
             trace_marker_line_color = ''black'',
             trace_name = us ! i\<rparr>" if "i < length us" for i
  proof -
    have "us ! i \<in> set cats" using that nth_mem [of i us] by (simp add: us_def unique_set)
    with nn have ne: "us ! i \<noteq> NaN" by auto
    have lane: "map_of ym (us ! i) = Some i"
      using map_of_zip_nth [of us "[0..<length us]" i] that dist by (simp add: ym_def)
    have colour: "map_of cm (us ! i) = Some (rgba i)"
      using map_of_zip_nth [of us "map rgba [0..<length us]" i] that dist by (simp add: cm_def)
    have sel: "select (map (\<lambda>v. cell_eq v (us ! i)) cats) (cells df label) = rows_of df (us ! i) label"
      for label using select_rows_of [of df "us ! i" label] nn ne by (simp add: cats_def)
    have len: "length (filter id (map (\<lambda>v. cell_eq v (us ! i)) cats))
               = length (rows_of df (us ! i) col_date)"
      using select_length [of "map (\<lambda>v. cell_eq v (us ! i)) cats" "cells df col_date"] ld
      by (simp add: sel)
    show ?thesis unfolding g_def sel len lane colour by simp
  qed
  show ?thesis
    unfolding cats_def [symmetric] us_def [symmetric] using ct each by simp
qed

section \<open>Partitions of an event table\<close>

lemma filter_zip_left_length:
  "length cs = length vs \<Longrightarrow> length (filter (\<lambda>(c, v). P c) (zip cs vs)) = length (filter P cs)"
  by (induction cs vs rule: list_induct2) simp_all

lemma rows_of_length:
  "length (cells df label) = length (cells df col_type)
   \<Longrightarrow> length (rows_of df e label) = length (filter (\<lambda>c. c = e) (cells df col_type))"
  using filter_zip_left_length [of "cells df col_type" "cells df label" "\<lambda>c. c = e"]
  by (simp add: rows_of_def)

lemma rows_of_nonempty:
  "length (cells df label) = length (cells df col_type) \<Longrightarrow> e \<in> set (cells df col_type)
   \<Longrightarrow> rows_of df e label \<noteq> []"
proof -
  assume len: "length (cells df label) = length (cells df col_type)"
    and mem: "e \<in> set (cells df col_type)"
  have "filter (\<lambda>c. c = e) (cells df col_type) \<noteq> []"
    using mem by (simp add: filter_empty_conv)
  then have "length (rows_of df e label) \<noteq> 0"
    using rows_of_length [OF len, of e] by simp
  then show ?thesis by auto
qed

lemma partition_sizes:
  assumes "distinct us" "set us = set cs"
  shows "sum_list (map (\<lambda>e. length (filter (\<lambda>c. c = e) cs)) us) = length cs"
proof -
  have eq: "length (filter (\<lambda>c. c = e) cs) = count_list cs e" for e
  proof -
    have "filter (\<lambda>c. c = e) cs = filter ((=) e) cs" by (rule filter_cong) auto
    then show ?thesis by (simp add: count_list_eq_length_filter)
  qed
  have "sum_list (map (count_list cs) us) = sum (count_list cs) (set us)"
    using assms(1) by (simp add: sum_list_distinct_conv_sum_set)
  also have "\<dots> = length cs"
    using sum_count_set [of cs "set cs"] assms(2) by simp
  finally show ?thesis by (simp add: eq)
qed

lemma event_table_lengths:
  "event_table df \<Longrightarrow>
     length (cells df col_date) = index_len df \<and> length (cells df col_type) = index_len df
     \<and> length (cells df col_desc) = index_len df \<and> NaN \<notin> set (cells df col_type)"
  using event_tableD [of df] by auto

subsection \<open>The example table\<close>

lemma example_table_event_table: "event_table example_table"
  by (simp add: event_table_def getitem_def example_table_def col_date_def col_type_def
      col_desc_def)

lemma example_table_categories:
  "cells example_table col_type = [Str [65], Str [66], Str [65]]"
  by (simp add: cells_def getitem_def example_table_def col_date_def col_type_def col_desc_def)

lemma example_table_dates:
  "cells example_table col_date = [Timestamp 2023 1 1, Timestamp 2023 5 1, Timestamp 2023 12 25]"
  by (simp add: cells_def getitem_def example_table_def col_date_def col_type_def col_desc_def)

lemma example_table_unique:
  "unique [Str [65], Str [66], Str [65]] = [Str [65], Str [66]]"
  by (simp add: unique_def)

section \<open>Lanes and series\<close>

text \<open>
  Claim C1. On an event table the renderer returns a figure with exactly one series
  per distinct category: the names of the series are the categories, each once, in the
  order in which they first occur in the table (their first positions increase), and
  there are as many series as distinct categories, \<open>N\<close>. The series at position
  \<open>i\<close> has at least one marker and every marker of it lies on lane \<open>i\<close>, so the
  lanes in use are exactly \<open>0, ..., N - 1\<close>; the ticks of the y axis are these
  lanes, labelled with the categories in the same order.
\<close>

theorem render_one_series_per_category:
  assumes "event_table df"
  shows "\<exists>fig. create_timeline df = Inr fig
    \<and> map trace_name (fig_data fig) = unique (cells df col_type)
    \<and> distinct (unique (cells df col_type))
    \<and> set (unique (cells df col_type)) = set (cells df col_type)
    \<and> sorted_wrt (<) (map (first_pos (cells df col_type)) (unique (cells df col_type)))
    \<and> length (fig_data fig) = card (set (cells df col_type))
    \<and> (\<forall>i < length (fig_data fig).
          trace_y (fig_data fig ! i) \<noteq> [] \<and> set (trace_y (fig_data fig ! i)) = {i}
          \<and> length (trace_y (fig_data fig ! i)) = length (trace_x (fig_data fig ! i)))
    \<and> (\<Union>t \<in> set (fig_data fig). set (trace_y t)) = {0..<card (set (cells df col_type))}
    \<and> fig_yaxis_tickvals fig = [0..<card (set (cells df col_type))]
    \<and> fig_yaxis_ticktext fig = unique (cells df col_type)"
proof -
  let ?us = "unique (cells df col_type)"
  from create_timeline_event_table [OF assms] obtain fig where
    ct: "create_timeline df = Inr fig" and
    len: "length (fig_data fig) = length ?us" and
    tv: "fig_yaxis_tickvals fig = [0..<length ?us]" and
    tt: "fig_yaxis_ticktext fig = ?us" and
    each: "\<And>i. i < length ?us \<Longrightarrow>
       trace_name (fig_data fig ! i) = ?us ! i
       \<and> trace_x (fig_data fig ! i) = rows_of df (?us ! i) col_date
       \<and> trace_y (fig_data fig ! i) = replicate (length (rows_of df (?us ! i) col_date)) i"
    by force
  have N: "length ?us = card (set (cells df col_type))" by (rule unique_length)
  have names: "map trace_name (fig_data fig) = ?us"
    using len each by (simp add: list_eq_iff_nth_eq)
  have lanes: "trace_y (fig_data fig ! i) \<noteq> [] \<and> set (trace_y (fig_data fig ! i)) = {i}
      \<and> length (trace_y (fig_data fig ! i)) = length (trace_x (fig_data fig ! i))"
    if i: "i < length ?us" for i
  proof -
    have "?us ! i \<in> set (cells df col_type)"
      using nth_mem [OF i] by (simp add: unique_set)
    then have "rows_of df (?us ! i) col_date \<noteq> []"
      using rows_of_nonempty [of df col_date] event_table_lengths [OF assms] by simp
    then show ?thesis using each [OF i] by simp
  qed
  have union: "(\<Union>t \<in> set (fig_data fig). set (trace_y t)) = {0..<length ?us}"
  proof (rule set_eqI)
    fix n
    show "n \<in> (\<Union>t \<in> set (fig_data fig). set (trace_y t)) \<longleftrightarrow> n \<in> {0..<length ?us}"
    proof
      assume "n \<in> (\<Union>t \<in> set (fig_data fig). set (trace_y t))"
      then obtain t where t: "t \<in> set (fig_data fig)" and n: "n \<in> set (trace_y t)" by auto
      from t obtain i where i: "i < length (fig_data fig)" and ti: "t = fig_data fig ! i"
        by (auto simp: in_set_conv_nth)
      from lanes [of i] i len n ti have "n = i" by simp
      with i len show "n \<in> {0..<length ?us}" by simp
    next
      assume "n \<in> {0..<length ?us}"
      then have n: "n < length ?us" by simp
      then have "fig_data fig ! n \<in> set (fig_data fig)" using len by simp
      moreover have "n \<in> set (trace_y (fig_data fig ! n))" using lanes [OF n] by simp
      ultimately show "n \<in> (\<Union>t \<in> set (fig_data fig). set (trace_y t))" by blast
    qed
  qed
  show ?thesis
    using ct names unique_distinct [of "cells df col_type"] unique_set [of "cells df col_type"]
      unique_first_seen [of "cells df col_type"] len lanes union tv tt
    unfolding N [symmetric] by (intro exI [of _ fig]) simp
qed


text \<open>The example table has the categories \<open>A\<close>, \<open>B\<close> on lanes 0 and 1.\<close>

theorem render_one_series_per_category_witness:
  "event_table example_table
   \<and> (\<exists>fig. create_timeline example_table = Inr fig
         \<and> map trace_name (fig_data fig) = [Str [65], Str [66]]
         \<and> length (fig_data fig) = 2
         \<and> fig_yaxis_tickvals fig = [0, 1])"
proof -
  from render_one_series_per_category [OF example_table_event_table] obtain fig where
    "create_timeline example_table = Inr fig"
    "map trace_name (fig_data fig) = unique (cells example_table col_type)"
    "length (fig_data fig) = card (set (cells example_table col_type))"
    "fig_yaxis_tickvals fig = [0..<card (set (cells example_table col_type))]"
    by blast
  moreover have "card (set (cells example_table col_type)) = 2"
    using unique_length [of "cells example_table col_type", symmetric]
    by (simp add: example_table_categories example_table_unique)
  moreover have "[0..<2] = [0, 1::nat]" by (simp add: numeral_2_eq_2)
  ultimately show ?thesis
    using example_table_event_table
    by (simp add: example_table_categories example_table_unique)
qed

section \<open>Label placement\<close>

text \<open>
  Claim C2. On an event table every category has a series, and the series of a
  category holds the dates of the rows of that category in the order of the table; its
  list of label placements has one entry per marker, and the entry at position \<open>j\<close>
  of the series is \<open>bottom center\<close> when \<open>j\<close> is even and \<open>top center\<close> when
  \<open>j\<close> is odd. The position counts within the series, not within the table.
\<close>

theorem label_placement_alternates:
  assumes "event_table df"
  shows "\<exists>fig. create_timeline df = Inr fig
    \<and> (\<forall>e \<in> set (cells df col_type). \<exists>i < length (fig_data fig). trace_name (fig_data fig ! i) = e)
    \<and> (\<forall>i < length (fig_data fig).
          trace_x (fig_data fig ! i) = rows_of df (trace_name (fig_data fig ! i)) col_date
          \<and> length (trace_textposition (fig_data fig ! i)) = length (trace_x (fig_data fig ! i))
          \<and> (\<forall>j < length (trace_x (fig_data fig ! i)).
                trace_textposition (fig_data fig ! i) ! j
                = (if even j then ''bottom center'' else ''top center'')))"
proof -
  let ?us = "unique (cells df col_type)"
  from create_timeline_event_table [OF assms] obtain fig where
    ct: "create_timeline df = Inr fig" and
    len: "length (fig_data fig) = length ?us" and
    each: "\<And>i. i < length ?us \<Longrightarrow>
       trace_name (fig_data fig ! i) = ?us ! i
       \<and> trace_x (fig_data fig ! i) = rows_of df (?us ! i) col_date
       \<and> trace_textposition (fig_data fig ! i) =
           map (\<lambda>j. if even j then ''bottom center'' else ''top center'')
               [0..<length (rows_of df (?us ! i) col_date)]"
    by force
  have every: "\<exists>i < length (fig_data fig). trace_name (fig_data fig ! i) = e"
    if "e \<in> set (cells df col_type)" for e
  proof -
    from that have "e \<in> set ?us" by (simp add: unique_set)
    then obtain i where "i < length ?us" "?us ! i = e" by (auto simp: in_set_conv_nth)
    with each [of i] len show ?thesis by auto
  qed
  show ?thesis
    using ct every each len by (intro exI [of _ fig]) simp
qed

text \<open>
  In the example table category \<open>A\<close> holds rows 0 and 2 of the table; their labels
  are placed below and above.
\<close>

theorem label_placement_alternates_witness:
  "event_table example_table
   \<and> (\<exists>fig. create_timeline example_table = Inr fig
         \<and> (\<exists>i. i < length (fig_data fig) \<and> trace_name (fig_data fig ! i) = Str [65]
                \<and> trace_textposition (fig_data fig ! i) = [''bottom center'', ''top center'']))"
proof -
  from label_placement_alternates [OF example_table_event_table] obtain fig where
    ct: "create_timeline example_table = Inr fig" and
    every: "\<forall>e \<in> set (cells example_table col_type).
              \<exists>i < length (fig_data fig). trace_name (fig_data fig ! i) = e" and
    each: "\<forall>i < length (fig_data fig).
          trace_x (fig_data fig ! i) = rows_of example_table (trace_name (fig_data fig ! i)) col_date
          \<and> length (trace_textposition (fig_data fig ! i)) = length (trace_x (fig_data fig ! i))
          \<and> (\<forall>j < length (trace_x (fig_data fig ! i)).
                trace_textposition (fig_data fig ! i) ! j
                = (if even j then ''bottom center'' else ''top center''))"
    by blast
  from every obtain i where i: "i < length (fig_data fig)"
    and name: "trace_name (fig_data fig ! i) = Str [65]"
    by (auto simp: example_table_categories)
  have rows: "rows_of example_table (Str [65]) col_date
              = [Timestamp 2023 1 1, Timestamp 2023 12 25]"
    by (simp add: rows_of_def example_table_categories example_table_dates)
  from each i name rows have
    len: "length (trace_textposition (fig_data fig ! i)) = 2" and
    pos: "\<forall>j < 2. trace_textposition (fig_data fig ! i) ! j
              = (if even j then ''bottom center'' else ''top center'')"
    by simp_all
  from pos have "trace_textposition (fig_data fig ! i) ! 0 = ''bottom center''"
    "trace_textposition (fig_data fig ! i) ! 1 = ''top center''" by simp_all
  with len have "trace_textposition (fig_data fig ! i) = [''bottom center'', ''top center'']"
    by (cases "trace_textposition (fig_data fig ! i)";
        cases "tl (trace_textposition (fig_data fig ! i))") auto
  with ct i name example_table_event_table show ?thesis by blast
qed

end
